theory Spec2Isabelle
  imports Main
begin

section \<open>The status updater of \<^verbatim>\<open>composables/status.ts\<close>\<close>

text \<open>
  \<^verbatim>\<open>useStatusUpdater(defaultSection)\<close> returns six closures over the status store and
  the default section. The store is shared mutable state, so every closure is modelled
  as a function from the store's state to its result and the store's next state.
\<close>

subsection \<open>Data\<close>

text \<open>
  Modelled from the spec: the enum \<^verbatim>\<open>Status\<close> of \<^verbatim>\<open>@/types/status\<close> is imported by the
  source and declared elsewhere. The spec gives the sentinel \<^verbatim>\<open>NONE\<close> ("never loaded")
  and names the further members only as the usual ones. The source mentions \<^verbatim>\<open>NONE\<close>
  alone, and nothing below depends on which other members there are.
\<close>

datatype Status = NONE | LOADING | PARTIALLY_LOADED | LOADED | ERROR

text \<open>
  \<^verbatim>\<open>Section\<close> is imported as a type only; it stays a type variable \<open>'sec\<close>.

  \<^verbatim>\<open>interface Opts { section?: Section; subsection?: string }\<close>: an optional property
  that is left out or \<^verbatim>\<open>undefined\<close> is \<open>None\<close>.
\<close>

record 'sec Opts =
  "section" :: "'sec option"
  "subsection" :: "string option"

text \<open>
  The object literal handed to the store's \<^verbatim>\<open>setStatus\<close>:
  \<^verbatim>\<open>{ section, subsection, status }\<close>, with \<^verbatim>\<open>subsection\<close> possibly \<^verbatim>\<open>undefined\<close>.
\<close>

record 'sec StatusPayload =
  "section" :: 'sec
  "subsection" :: "string option"
  status :: Status

text \<open>
  The handle that \<^verbatim>\<open>useStatusUpdater\<close> returns. Each operation takes its optional
  \<^verbatim>\<open>opts\<close> argument as an option (\<open>None\<close>: the argument is left out).
\<close>

record ('sec, 'store) StatusUpdater =
  loading :: "'sec Opts option \<Rightarrow> 'store \<Rightarrow> bool \<times> 'store"
  isFirstLoad :: "'sec Opts option \<Rightarrow> 'store \<Rightarrow> bool \<times> 'store"
  setStatus :: "Status \<Rightarrow> 'sec Opts option \<Rightarrow> 'store \<Rightarrow> unit \<times> 'store"
  getStatus :: "'sec Opts option \<Rightarrow> 'store \<Rightarrow> Status \<times> 'store"
  fetchDisabled :: "bool \<Rightarrow> 'sec Opts option \<Rightarrow> 'store \<Rightarrow> bool \<times> 'store"
  resetStatus :: "'sec Opts option \<Rightarrow> 'store \<Rightarrow> unit \<times> 'store"

subsection \<open>The store, as the source uses it\<close>

text \<open>
  Modelled from the spec: the store behind
  \<^verbatim>\<open>const { setStatus, getStatus, isLoading } = useStatusStore()\<close> is declared outside
  the sources. The spec lists what the updater consumes from it:
  \<^verbatim>\<open>setStatus({section, subsection?, status})\<close>, which changes the store, and
  \<^verbatim>\<open>getStatus(section, subsection?)\<close> and \<^verbatim>\<open>isLoading(section, subsection?)\<close>, which return
  a reactive status and a reactive boolean. A reactive value is a function of the
  store's state. The three operations are parameters of the model: the closures below
  work with any store of this shape.
\<close>

record ('sec, 'store) StatusStore =
  setStatus :: "'sec StatusPayload \<Rightarrow> 'store \<Rightarrow> 'store"
  getStatus :: "'sec \<Rightarrow> string option \<Rightarrow> 'store \<Rightarrow> Status"
  isLoading :: "'sec \<Rightarrow> string option \<Rightarrow> 'store \<Rightarrow> bool"

text \<open>\<^verbatim>\<open>get(ref)\<close> unwraps a reactive value: it reads it in the current state.\<close>

definition get :: "('store \<Rightarrow> 'a) \<Rightarrow> 'store \<Rightarrow> 'a" where
  "get r s = r s"

text \<open>The default \<^verbatim>\<open>opts: Opts = {}\<close> of every closure.\<close>

definition optsDefault :: "'sec Opts option \<Rightarrow> 'sec Opts" where
  "optsDefault arg =
     (case arg of
        None \<Rightarrow> \<lparr>Opts.section = None, Opts.subsection = None\<rparr>
      | Some opts \<Rightarrow> opts)"

subsection \<open>The closures\<close>

definition updateStatus ::
  "('sec, 'store) StatusStore \<Rightarrow> 'sec \<Rightarrow> Status \<Rightarrow> 'sec Opts option \<Rightarrow> 'store \<Rightarrow> unit \<times> 'store"
where
  "updateStatus store defaultSection status arg s =
     (let opts = optsDefault arg;
          section = (case Opts.section opts of None \<Rightarrow> defaultSection | Some x \<Rightarrow> x);
          subsection = Opts.subsection opts
      in ((), setStatus store
                \<lparr>section = section, subsection = subsection, status = status\<rparr> s))"
  for status

definition resetStatus ::
  "('sec, 'store) StatusStore \<Rightarrow> 'sec \<Rightarrow> 'sec Opts option \<Rightarrow> 'store \<Rightarrow> unit \<times> 'store"
where
  "resetStatus store defaultSection arg s =
     (let opts = optsDefault arg;
          section = (case Opts.section opts of None \<Rightarrow> defaultSection | Some x \<Rightarrow> x);
          subsection = Opts.subsection opts
      in ((), setStatus store
                \<lparr>section = section, subsection = subsection, status = NONE\<rparr> s))"

definition loading ::
  "('sec, 'store) StatusStore \<Rightarrow> 'sec \<Rightarrow> 'sec Opts option \<Rightarrow> 'store \<Rightarrow> bool \<times> 'store"
where
  "loading store defaultSection arg s =
     (let opts = optsDefault arg;
          section = (case Opts.section opts of None \<Rightarrow> defaultSection | Some x \<Rightarrow> x);
          subsection = Opts.subsection opts
      in (get (isLoading store section subsection) s, s))"

definition isFirstLoad ::
  "('sec, 'store) StatusStore \<Rightarrow> 'sec \<Rightarrow> 'sec Opts option \<Rightarrow> 'store \<Rightarrow> bool \<times> 'store"
where
  "isFirstLoad store defaultSection arg s =
     (let opts = optsDefault arg;
          section = (case Opts.section opts of None \<Rightarrow> defaultSection | Some x \<Rightarrow> x);
          subsection = Opts.subsection opts
      in (get (getStatus store section subsection) s = NONE, s))"

text \<open>
  \<^verbatim>\<open>!(isFirstLoad(opts) || refresh) || loading(opts)\<close>: \<^verbatim>\<open>||\<close> evaluates its right
  operand only when the left one is false, so \<^verbatim>\<open>loading\<close> is called only when
  \<^verbatim>\<open>isFirstLoad(opts) || refresh\<close> holds, and sees the store as \<^verbatim>\<open>isFirstLoad\<close> left it.
\<close>

definition fetchDisabled ::
  "('sec, 'store) StatusStore \<Rightarrow> 'sec \<Rightarrow> bool \<Rightarrow> 'sec Opts option \<Rightarrow> 'store \<Rightarrow> bool \<times> 'store"
where
  "fetchDisabled store defaultSection refresh arg s =
     (let opts = optsDefault arg;
          (first, s1) = isFirstLoad store defaultSection (Some opts) s
      in if \<not> (first \<or> refresh) then (True, s1)
         else loading store defaultSection (Some opts) s1)"

definition getSectionStatus ::
  "('sec, 'store) StatusStore \<Rightarrow> 'sec \<Rightarrow> 'sec Opts option \<Rightarrow> 'store \<Rightarrow> Status \<times> 'store"
where
  "getSectionStatus store defaultSection arg s =
     (let opts = optsDefault arg;
          section = (case Opts.section opts of None \<Rightarrow> defaultSection | Some x \<Rightarrow> x);
          subsection = Opts.subsection opts
      in (get (getStatus store section subsection) s, s))"

text \<open>
  \<^verbatim>\<open>useStatusUpdater\<close> obtains the store once, when it is called; here the store is its
  first argument. The handle exports \<^verbatim>\<open>updateStatus\<close> as \<^verbatim>\<open>setStatus\<close> and
  \<^verbatim>\<open>getSectionStatus\<close> as \<^verbatim>\<open>getStatus\<close>.
\<close>

definition useStatusUpdater ::
  "('sec, 'store) StatusStore \<Rightarrow> 'sec \<Rightarrow> ('sec, 'store) StatusUpdater"
where
  "useStatusUpdater store defaultSection =
     \<lparr>StatusUpdater.loading = loading store defaultSection,
      StatusUpdater.isFirstLoad = isFirstLoad store defaultSection,
      StatusUpdater.setStatus = updateStatus store defaultSection,
      StatusUpdater.getStatus = getSectionStatus store defaultSection,
      StatusUpdater.fetchDisabled = fetchDisabled store defaultSection,
      StatusUpdater.resetStatus = resetStatus store defaultSection\<rparr>"

subsection \<open>Option resolution, in the spec's words\<close>

text \<open>
  The spec's resolution rule: \<^verbatim>\<open>section\<close> resolves to the explicit value if provided,
  else to \<^verbatim>\<open>defaultSection\<close>; \<^verbatim>\<open>subsection\<close> resolves to the explicit value if provided,
  else to absent. Options left out altogether provide neither.
\<close>

definition effectiveSection :: "'sec \<Rightarrow> 'sec Opts option \<Rightarrow> 'sec" where
  "effectiveSection defaultSection arg =
     (case arg of
        None \<Rightarrow> defaultSection
      | Some opts \<Rightarrow>
          (case Opts.section opts of None \<Rightarrow> defaultSection | Some explicit \<Rightarrow> explicit))"

definition effectiveSubsection :: "'sec Opts option \<Rightarrow> string option" where
  "effectiveSubsection arg =
     (case arg of None \<Rightarrow> None | Some opts \<Rightarrow> Opts.subsection opts)"

subsection \<open>The status store\<close>

text \<open>
  Modelled from the spec: the status store behind \<^verbatim>\<open>useStatusStore\<close> is declared outside
  the sources. The spec describes it as a registry that maps the key (section,
  subsection or absent) to the current status, with write access, read access and a
  derived "is loading" predicate; a key that was never written reads \<^verbatim>\<open>NONE\<close>. The spec
  does not say which statuses count as loading, so that is the parameter \<open>busy\<close>.
\<close>

type_synonym 'sec StatusKey = "'sec \<times> string option"

type_synonym 'sec StatusState = "'sec StatusKey \<rightharpoonup> Status"

definition storeSetStatus :: "'sec StatusPayload \<Rightarrow> 'sec StatusState \<Rightarrow> 'sec StatusState" where
  "storeSetStatus payload m = m((section payload, subsection payload) \<mapsto> status payload)"

definition storeGetStatus :: "'sec \<Rightarrow> string option \<Rightarrow> 'sec StatusState \<Rightarrow> Status" where
  "storeGetStatus sec sub m = (case m (sec, sub) of None \<Rightarrow> NONE | Some v \<Rightarrow> v)"

definition storeIsLoading ::
  "(Status \<Rightarrow> bool) \<Rightarrow> 'sec \<Rightarrow> string option \<Rightarrow> 'sec StatusState \<Rightarrow> bool"
where
  "storeIsLoading busy sec sub m = busy (storeGetStatus sec sub m)"

definition useStatusStore :: "(Status \<Rightarrow> bool) \<Rightarrow> ('sec, 'sec StatusState) StatusStore" where
  "useStatusStore busy =
     \<lparr>setStatus = storeSetStatus,
      getStatus = storeGetStatus,
      isLoading = storeIsLoading busy\<rparr>"

section \<open>Properties\<close>

subsection \<open>Each closure at its resolved key\<close>

lemma updateStatus_resolved:
  fixes status :: Status
  shows "updateStatus store d status arg s =
    ((), setStatus store
           \<lparr>section = effectiveSection d arg, subsection = effectiveSubsection arg,
            status = status\<rparr> s)"
  by (simp add: updateStatus_def optsDefault_def effectiveSection_def
      effectiveSubsection_def split: option.splits)

lemma resetStatus_resolved:
  "resetStatus store d arg s =
    ((), setStatus store
           \<lparr>section = effectiveSection d arg, subsection = effectiveSubsection arg,
            status = NONE\<rparr> s)"
  by (simp add: resetStatus_def optsDefault_def effectiveSection_def
      effectiveSubsection_def split: option.splits)

lemma loading_resolved:
  "loading store d arg s =
    (isLoading store (effectiveSection d arg) (effectiveSubsection arg) s, s)"
  by (simp add: loading_def get_def optsDefault_def effectiveSection_def
      effectiveSubsection_def split: option.splits)

lemma isFirstLoad_resolved:
  "isFirstLoad store d arg s =
    (getStatus store (effectiveSection d arg) (effectiveSubsection arg) s = NONE, s)"
  by (simp add: isFirstLoad_def get_def optsDefault_def effectiveSection_def
      effectiveSubsection_def split: option.splits)

lemma getSectionStatus_resolved:
  "getSectionStatus store d arg s =
    (getStatus store (effectiveSection d arg) (effectiveSubsection arg) s, s)"
  by (simp add: getSectionStatus_def get_def optsDefault_def effectiveSection_def
      effectiveSubsection_def split: option.splits)

text \<open>Passing on the defaulted options resolves to the same key as the argument.\<close>

lemma effective_optsDefault:
  "effectiveSection d (Some (optsDefault arg)) = effectiveSection d arg"
  "effectiveSubsection (Some (optsDefault arg)) = effectiveSubsection arg"
  by (simp_all add: optsDefault_def effectiveSection_def effectiveSubsection_def
      split: option.splits)

lemma fetchDisabled_resolved:
  "fetchDisabled store d refresh arg s =
    (\<not> (getStatus store (effectiveSection d arg) (effectiveSubsection arg) s = NONE
         \<or> refresh)
     \<or> isLoading store (effectiveSection d arg) (effectiveSubsection arg) s, s)"
  by (simp add: fetchDisabled_def isFirstLoad_resolved loading_resolved
      effective_optsDefault)

subsection \<open>The rule of \<^verbatim>\<open>fetchDisabled\<close>\<close>

text \<open>
  C1: for every boolean \<open>refresh\<close> and every options argument, \<^verbatim>\<open>fetchDisabled(refresh, opts)\<close>
  returns \<^verbatim>\<open>NOT (isFirstLoad(opts) OR refresh) OR loading(opts)\<close>, all three read in the
  same store state; equivalently, it returns false exactly when
  \<^verbatim>\<open>isFirstLoad(opts) OR refresh\<close> holds and \<^verbatim>\<open>loading(opts)\<close> is false.
\<close>

theorem fetchDisabled_formula:
  "fst (StatusUpdater.fetchDisabled (useStatusUpdater store d) refresh arg s) =
     (\<not> (fst (StatusUpdater.isFirstLoad (useStatusUpdater store d) arg s) \<or> refresh)
      \<or> fst (StatusUpdater.loading (useStatusUpdater store d) arg s))
   \<and> (fst (StatusUpdater.fetchDisabled (useStatusUpdater store d) refresh arg s) = False) =
     ((fst (StatusUpdater.isFirstLoad (useStatusUpdater store d) arg s) \<or> refresh)
      \<and> fst (StatusUpdater.loading (useStatusUpdater store d) arg s) = False)"
  by (simp add: useStatusUpdater_def fetchDisabled_resolved isFirstLoad_resolved
      loading_resolved)

theorem fetchDisabled_formula_witness:
  "let h = useStatusUpdater (useStatusStore (\<lambda>v. v = LOADING)) ''balances'';
       s0 = (Map.empty :: string StatusState)
   in fst (StatusUpdater.isFirstLoad h None s0)
      \<and> fst (StatusUpdater.loading h None s0) = False
      \<and> fst (StatusUpdater.fetchDisabled h False None s0) = False
      \<and> (fst (StatusUpdater.fetchDisabled h False None s0) =
           (\<not> (fst (StatusUpdater.isFirstLoad h None s0) \<or> False)
            \<or> fst (StatusUpdater.loading h None s0)))"
  using fetchDisabled_formula
    [where store = "useStatusStore (\<lambda>v. v = LOADING)" and d = "''balances''"
       and refresh = False and arg = None and s = "Map.empty :: string StatusState"]
  by (simp add: useStatusUpdater_def isFirstLoad_resolved loading_resolved
      useStatusStore_def storeGetStatus_def storeIsLoading_def)

text \<open>
  C6: \<^verbatim>\<open>fetchDisabled(true, opts)\<close> equals \<^verbatim>\<open>loading(opts)\<close> in every store state, whatever
  \<^verbatim>\<open>isFirstLoad(opts)\<close> is there.
\<close>

theorem fetchDisabled_refresh:
  "fst (StatusUpdater.fetchDisabled (useStatusUpdater store d) True arg s) =
     fst (StatusUpdater.loading (useStatusUpdater store d) arg s)"
  by (simp add: useStatusUpdater_def fetchDisabled_resolved loading_resolved)

theorem fetchDisabled_refresh_witness:
  "let h = useStatusUpdater (useStatusStore (\<lambda>v. v = LOADING)) ''balances''
   in fst (StatusUpdater.fetchDisabled h True None [(''balances'', None) \<mapsto> LOADING]) = True
      \<and> fst (StatusUpdater.loading h None [(''balances'', None) \<mapsto> LOADING]) = True
      \<and> fst (StatusUpdater.fetchDisabled h True None [(''balances'', None) \<mapsto> LOADED]) = False
      \<and> fst (StatusUpdater.loading h None [(''balances'', None) \<mapsto> LOADED]) = False"
  using
    fetchDisabled_refresh
      [where store = "useStatusStore (\<lambda>v. v = LOADING)" and d = "''balances''"
         and arg = None and s = "[(''balances'', None) \<mapsto> LOADING]"]
    fetchDisabled_refresh
      [where store = "useStatusStore (\<lambda>v. v = LOADING)" and d = "''balances''"
         and arg = None and s = "[(''balances'', None) \<mapsto> LOADED]"]
  by (simp add: useStatusUpdater_def loading_resolved useStatusStore_def
      storeGetStatus_def storeIsLoading_def effectiveSection_def effectiveSubsection_def)

text \<open>
  C7: \<^verbatim>\<open>fetchDisabled(false, opts)\<close> equals \<^verbatim>\<open>loading(opts) OR NOT isFirstLoad(opts)\<close>, the
  three calls made in the same store state with the same options.
\<close>

theorem fetchDisabled_no_refresh:
  "fst (StatusUpdater.fetchDisabled (useStatusUpdater store d) False arg s) =
     (fst (StatusUpdater.loading (useStatusUpdater store d) arg s)
      \<or> \<not> fst (StatusUpdater.isFirstLoad (useStatusUpdater store d) arg s))"
  by (auto simp add: useStatusUpdater_def fetchDisabled_resolved isFirstLoad_resolved
      loading_resolved)

theorem fetchDisabled_no_refresh_witness:
  "let h = useStatusUpdater (useStatusStore (\<lambda>v. v = LOADING)) ''balances'';
       s1 = [(''balances'', None) \<mapsto> LOADED]
   in \<not> fst (StatusUpdater.isFirstLoad h None s1)
      \<and> \<not> fst (StatusUpdater.loading h None s1)
      \<and> fst (StatusUpdater.fetchDisabled h False None s1)
      \<and> (fst (StatusUpdater.fetchDisabled h False None s1) =
           (fst (StatusUpdater.loading h None s1)
            \<or> \<not> fst (StatusUpdater.isFirstLoad h None s1)))"
  using fetchDisabled_no_refresh
    [where store = "useStatusStore (\<lambda>v. v = LOADING)" and d = "''balances''"
       and arg = None and s = "[(''balances'', None) \<mapsto> LOADED]"]
  by (simp add: useStatusUpdater_def isFirstLoad_resolved loading_resolved
      useStatusStore_def storeGetStatus_def storeIsLoading_def
      effectiveSection_def effectiveSubsection_def)

subsection \<open>Option resolution\<close>

text \<open>
  C2: in each of the six operations of the handle, the section handed to the store is
  \<^verbatim>\<open>opts.section\<close> when it is provided and \<^verbatim>\<open>defaultSection\<close> otherwise, and the
  subsection is \<^verbatim>\<open>opts.subsection\<close> when it is provided and absent otherwise, also when
  \<^verbatim>\<open>opts\<close> is left out. The store is arbitrary, so what each operation does is what the
  store does at the resolved section and subsection.
\<close>

theorem option_resolution:
  fixes status :: Status
  shows
  "StatusUpdater.setStatus (useStatusUpdater store d) status arg s =
     ((), setStatus store
            \<lparr>section = effectiveSection d arg, subsection = effectiveSubsection arg,
             status = status\<rparr> s)
   \<and> StatusUpdater.resetStatus (useStatusUpdater store d) arg s =
     ((), setStatus store
            \<lparr>section = effectiveSection d arg, subsection = effectiveSubsection arg,
             status = NONE\<rparr> s)
   \<and> StatusUpdater.loading (useStatusUpdater store d) arg s =
     (get (isLoading store (effectiveSection d arg) (effectiveSubsection arg)) s, s)
   \<and> StatusUpdater.isFirstLoad (useStatusUpdater store d) arg s =
     (get (getStatus store (effectiveSection d arg) (effectiveSubsection arg)) s = NONE, s)
   \<and> StatusUpdater.getStatus (useStatusUpdater store d) arg s =
     (get (getStatus store (effectiveSection d arg) (effectiveSubsection arg)) s, s)
   \<and> StatusUpdater.fetchDisabled (useStatusUpdater store d) refresh arg s =
     (\<not> (get (getStatus store (effectiveSection d arg) (effectiveSubsection arg)) s = NONE
          \<or> refresh)
      \<or> get (isLoading store (effectiveSection d arg) (effectiveSubsection arg)) s, s)
   \<and> effectiveSection d None = d
   \<and> effectiveSubsection None = None
   \<and> effectiveSection d (Some \<lparr>Opts.section = None, Opts.subsection = sub\<rparr>) = d
   \<and> effectiveSection d (Some \<lparr>Opts.section = Some x, Opts.subsection = sub\<rparr>) = x
   \<and> effectiveSubsection (Some \<lparr>Opts.section = sec, Opts.subsection = sub\<rparr>) = sub"
  by (simp add: useStatusUpdater_def updateStatus_resolved resetStatus_resolved
      loading_resolved isFirstLoad_resolved getSectionStatus_resolved
      fetchDisabled_resolved get_def effectiveSection_def effectiveSubsection_def)

theorem option_resolution_witness:
  "let h = useStatusUpdater (useStatusStore (\<lambda>v. v = LOADING)) ''balances'';
       s0 = (Map.empty :: string StatusState)
   in snd (StatusUpdater.setStatus h LOADED None s0) = [(''balances'', None) \<mapsto> LOADED]
      \<and> snd (StatusUpdater.setStatus h LOADED
                (Some \<lparr>Opts.section = None, Opts.subsection = Some ''eth''\<rparr>) s0)
          = [(''balances'', Some ''eth'') \<mapsto> LOADED]
      \<and> snd (StatusUpdater.setStatus h LOADED
                (Some \<lparr>Opts.section = Some ''defi'', Opts.subsection = None\<rparr>) s0)
          = [(''defi'', None) \<mapsto> LOADED]
      \<and> snd (StatusUpdater.resetStatus h
                (Some \<lparr>Opts.section = Some ''defi'', Opts.subsection = Some ''aave''\<rparr>) s0)
          = [(''defi'', Some ''aave'') \<mapsto> NONE]"
  using
    option_resolution
      [where store = "useStatusStore (\<lambda>v. v = LOADING)" and d = "''balances''"
         and status = LOADED and arg = None and s = "Map.empty :: string StatusState"]
    option_resolution
      [where store = "useStatusStore (\<lambda>v. v = LOADING)" and d = "''balances''"
         and status = LOADED and s = "Map.empty :: string StatusState"
         and arg = "Some \<lparr>Opts.section = None, Opts.subsection = Some ''eth''\<rparr>"]
    option_resolution
      [where store = "useStatusStore (\<lambda>v. v = LOADING)" and d = "''balances''"
         and status = LOADED and s = "Map.empty :: string StatusState"
         and arg = "Some \<lparr>Opts.section = Some ''defi'', Opts.subsection = None\<rparr>"]
    option_resolution
      [where store = "useStatusStore (\<lambda>v. v = LOADING)" and d = "''balances''"
         and s = "Map.empty :: string StatusState"
         and arg = "Some \<lparr>Opts.section = Some ''defi'', Opts.subsection = Some ''aave''\<rparr>"]
  by (simp add: useStatusStore_def storeSetStatus_def effectiveSection_def
      effectiveSubsection_def)

subsection \<open>Reading the status\<close>

text \<open>
  C3: in every store state, \<^verbatim>\<open>isFirstLoad(opts)\<close> is true if and only if the status the
  store holds at the resolved section and subsection is \<^verbatim>\<open>Status.NONE\<close>; that is,
  \<^verbatim>\<open>isFirstLoad(opts)\<close> equals \<^verbatim>\<open>getStatus(opts) == Status.NONE\<close>.
\<close>

theorem isFirstLoad_iff_NONE:
  "fst (StatusUpdater.isFirstLoad (useStatusUpdater store d) arg s) =
     (get (getStatus store (effectiveSection d arg) (effectiveSubsection arg)) s = NONE)
   \<and> fst (StatusUpdater.isFirstLoad (useStatusUpdater store d) arg s) =
     (fst (StatusUpdater.getStatus (useStatusUpdater store d) arg s) = NONE)"
  by (simp add: useStatusUpdater_def isFirstLoad_resolved getSectionStatus_resolved
      get_def)

theorem isFirstLoad_iff_NONE_witness:
  "let h = useStatusUpdater (useStatusStore (\<lambda>v. v = LOADING)) ''balances''
   in fst (StatusUpdater.isFirstLoad h None Map.empty) = True
      \<and> fst (StatusUpdater.getStatus h None Map.empty) = NONE
      \<and> fst (StatusUpdater.isFirstLoad h None [(''balances'', None) \<mapsto> LOADED]) = False
      \<and> fst (StatusUpdater.getStatus h None [(''balances'', None) \<mapsto> LOADED]) = LOADED"
  using
    isFirstLoad_iff_NONE
      [where store = "useStatusStore (\<lambda>v. v = LOADING)" and d = "''balances''"
         and arg = None and s = "Map.empty :: string StatusState"]
    isFirstLoad_iff_NONE
      [where store = "useStatusStore (\<lambda>v. v = LOADING)" and d = "''balances''"
         and arg = None and s = "[(''balances'', None) \<mapsto> LOADED]"]
  by (simp add: useStatusUpdater_def isFirstLoad_resolved getSectionStatus_resolved
      get_def useStatusStore_def storeGetStatus_def effectiveSection_def
      effectiveSubsection_def)

subsection \<open>Reads leave the store as it is\<close>

text \<open>
  C8: \<^verbatim>\<open>loading\<close>, \<^verbatim>\<open>isFirstLoad\<close>, \<^verbatim>\<open>getStatus\<close> and \<^verbatim>\<open>fetchDisabled\<close> leave the store
  unchanged: the store state after the call is the state before it. Only
  \<^verbatim>\<open>setStatus\<close> and \<^verbatim>\<open>resetStatus\<close> reach the store's own \<^verbatim>\<open>setStatus\<close>.
\<close>

theorem reads_keep_store:
  "snd (StatusUpdater.loading (useStatusUpdater store d) arg s) = s
   \<and> snd (StatusUpdater.isFirstLoad (useStatusUpdater store d) arg s) = s
   \<and> snd (StatusUpdater.getStatus (useStatusUpdater store d) arg s) = s
   \<and> snd (StatusUpdater.fetchDisabled (useStatusUpdater store d) refresh arg s) = s"
  by (simp add: useStatusUpdater_def loading_resolved isFirstLoad_resolved
      getSectionStatus_resolved fetchDisabled_resolved)

theorem reads_keep_store_witness:
  "let h = useStatusUpdater (useStatusStore (\<lambda>v. v = LOADING)) ''balances'';
       s1 = [(''balances'', None) \<mapsto> LOADING]
   in StatusUpdater.loading h None s1 = (True, s1)
      \<and> StatusUpdater.isFirstLoad h None s1 = (False, s1)
      \<and> StatusUpdater.getStatus h None s1 = (LOADING, s1)
      \<and> StatusUpdater.fetchDisabled h True None s1 = (True, s1)"
  using reads_keep_store
    [where store = "useStatusStore (\<lambda>v. v = LOADING)" and d = "''balances''"
       and arg = None and refresh = True and s = "[(''balances'', None) \<mapsto> LOADING]"]
  by (simp add: useStatusUpdater_def loading_resolved isFirstLoad_resolved
      getSectionStatus_resolved fetchDisabled_resolved useStatusStore_def
      storeGetStatus_def storeIsLoading_def effectiveSection_def effectiveSubsection_def)

text \<open>The two writers do change the store: a written entry is there afterwards.\<close>

lemma writers_change_store:
  "snd (StatusUpdater.setStatus
          (useStatusUpdater (useStatusStore busy) ''balances'') LOADED None Map.empty)
     \<noteq> Map.empty
   \<and> snd (StatusUpdater.resetStatus
          (useStatusUpdater (useStatusStore busy) ''balances'') None Map.empty)
     \<noteq> Map.empty"
  by (simp add: useStatusUpdater_def updateStatus_resolved resetStatus_resolved
      useStatusStore_def storeSetStatus_def)

subsection \<open>Writing the status\<close>

text \<open>
  C9: \<^verbatim>\<open>resetStatus(opts)\<close> does what \<^verbatim>\<open>setStatus(Status.NONE, opts)\<close> does: both resolve
  the same section and subsection and make the same write, so they return the same and
  leave the same store state.
\<close>

theorem resetStatus_is_setStatus_NONE:
  "StatusUpdater.resetStatus (useStatusUpdater store d) arg s =
     StatusUpdater.setStatus (useStatusUpdater store d) NONE arg s"
  by (simp add: useStatusUpdater_def updateStatus_resolved resetStatus_resolved)

theorem resetStatus_is_setStatus_NONE_witness:
  "let h = useStatusUpdater (useStatusStore (\<lambda>v. v = LOADING)) ''balances'';
       s1 = [(''balances'', None) \<mapsto> LOADED]
   in StatusUpdater.resetStatus h None s1 = ((), [(''balances'', None) \<mapsto> NONE])
      \<and> StatusUpdater.setStatus h NONE None s1 = ((), [(''balances'', None) \<mapsto> NONE])"
  using resetStatus_is_setStatus_NONE
    [where store = "useStatusStore (\<lambda>v. v = LOADING)" and d = "''balances''"
       and arg = None and s = "[(''balances'', None) \<mapsto> LOADED]"]
  by (simp add: useStatusUpdater_def resetStatus_resolved useStatusStore_def
      storeSetStatus_def effectiveSection_def effectiveSubsection_def)

text \<open>
  C4: \<^verbatim>\<open>setStatus(status, opts)\<close> writes \<open>status\<close> into the store at the resolved section
  and subsection and returns nothing (its result type is \<open>unit\<close>); so right after
  \<^verbatim>\<open>setStatus(status, opts)\<close> with a status other than \<^verbatim>\<open>Status.NONE\<close>,
  \<^verbatim>\<open>isFirstLoad(opts)\<close> returns false.
\<close>

theorem setStatus_writes:
  fixes status :: Status and s :: "'sec StatusState"
  shows
  "StatusUpdater.setStatus (useStatusUpdater (useStatusStore busy) d) status arg s =
     ((), s((effectiveSection d arg, effectiveSubsection arg) \<mapsto> status))
   \<and> fst (StatusUpdater.getStatus (useStatusUpdater (useStatusStore busy) d) arg
          (snd (StatusUpdater.setStatus (useStatusUpdater (useStatusStore busy) d)
                  status arg s))) = status
   \<and> (status \<noteq> NONE \<longrightarrow>
        fst (StatusUpdater.isFirstLoad (useStatusUpdater (useStatusStore busy) d) arg
          (snd (StatusUpdater.setStatus (useStatusUpdater (useStatusStore busy) d)
                  status arg s))) = False)"
  by (simp add: useStatusUpdater_def updateStatus_resolved isFirstLoad_resolved
      getSectionStatus_resolved useStatusStore_def storeSetStatus_def storeGetStatus_def)

theorem setStatus_writes_witness:
  "let h = useStatusUpdater (useStatusStore (\<lambda>v. v = LOADING)) ''balances'';
       s0 = (Map.empty :: string StatusState)
   in LOADED \<noteq> NONE
      \<and> fst (StatusUpdater.isFirstLoad h None s0)
      \<and> snd (StatusUpdater.setStatus h LOADED None s0) = [(''balances'', None) \<mapsto> LOADED]
      \<and> fst (StatusUpdater.isFirstLoad h None
               (snd (StatusUpdater.setStatus h LOADED None s0))) = False"
  using setStatus_writes
    [where status = LOADED and busy = "\<lambda>v. v = LOADING" and d = "''balances''"
       and arg = None and s = "Map.empty :: string StatusState"]
  by (simp add: useStatusUpdater_def isFirstLoad_resolved useStatusStore_def
      storeGetStatus_def effectiveSection_def effectiveSubsection_def)

text \<open>
  C5: \<^verbatim>\<open>resetStatus(opts)\<close> writes \<^verbatim>\<open>Status.NONE\<close> into the store at the resolved section
  and subsection, so \<^verbatim>\<open>getStatus(opts)\<close> right after it yields \<^verbatim>\<open>Status.NONE\<close>.
\<close>

theorem resetStatus_then_getStatus:
  fixes s :: "'sec StatusState"
  shows
  "StatusUpdater.resetStatus (useStatusUpdater (useStatusStore busy) d) arg s =
     ((), s((effectiveSection d arg, effectiveSubsection arg) \<mapsto> NONE))
   \<and> fst (StatusUpdater.getStatus (useStatusUpdater (useStatusStore busy) d) arg
          (snd (StatusUpdater.resetStatus (useStatusUpdater (useStatusStore busy) d)
                  arg s))) = NONE"
  by (simp add: useStatusUpdater_def resetStatus_resolved getSectionStatus_resolved
      useStatusStore_def storeSetStatus_def storeGetStatus_def)

theorem resetStatus_then_getStatus_witness:
  "let h = useStatusUpdater (useStatusStore (\<lambda>v. v = LOADING)) ''balances'';
       s1 = [(''balances'', None) \<mapsto> LOADED]
   in fst (StatusUpdater.getStatus h None s1) = LOADED
      \<and> snd (StatusUpdater.resetStatus h None s1) = [(''balances'', None) \<mapsto> NONE]
      \<and> fst (StatusUpdater.getStatus h None (snd (StatusUpdater.resetStatus h None s1)))
          = NONE"
  using resetStatus_then_getStatus
    [where busy = "\<lambda>v. v = LOADING" and d = "''balances''"
       and arg = None and s = "[(''balances'', None) \<mapsto> LOADED]"]
  by (simp add: useStatusUpdater_def getSectionStatus_resolved useStatusStore_def
      storeGetStatus_def effectiveSection_def effectiveSubsection_def)

text \<open>
  C10: \<^verbatim>\<open>setStatus(status, opts)\<close> and \<^verbatim>\<open>resetStatus(opts)\<close> change at most the entry at
  the resolved section and subsection: at every other key the store holds the same
  entry, and so the same status, before and after the call.
\<close>

theorem writers_frame:
  fixes status :: Status and s :: "'sec StatusState"
  assumes "(sec', sub') \<noteq> (effectiveSection d arg, effectiveSubsection arg)"
  shows
  "snd (StatusUpdater.setStatus (useStatusUpdater (useStatusStore busy) d) status arg s)
       (sec', sub') = s (sec', sub')
   \<and> snd (StatusUpdater.resetStatus (useStatusUpdater (useStatusStore busy) d) arg s)
       (sec', sub') = s (sec', sub')
   \<and> get (getStatus (useStatusStore busy) sec' sub')
       (snd (StatusUpdater.setStatus (useStatusUpdater (useStatusStore busy) d)
               status arg s))
     = get (getStatus (useStatusStore busy) sec' sub') s
   \<and> get (getStatus (useStatusStore busy) sec' sub')
       (snd (StatusUpdater.resetStatus (useStatusUpdater (useStatusStore busy) d) arg s))
     = get (getStatus (useStatusStore busy) sec' sub') s"
  using assms
  by (auto simp add: useStatusUpdater_def updateStatus_resolved resetStatus_resolved
      useStatusStore_def storeSetStatus_def storeGetStatus_def get_def)

theorem writers_frame_witness:
  "let store = useStatusStore (\<lambda>v. v = LOADING);
       h = useStatusUpdater store ''balances'';
       s1 = [(''defi'', Some ''aave'') \<mapsto> LOADING];
       opts = Some \<lparr>Opts.section = None, Opts.subsection = Some ''eth''\<rparr>
   in (''defi'', Some ''aave'') \<noteq> (effectiveSection ''balances'' opts, effectiveSubsection opts)
      \<and> get (getStatus store ''defi'' (Some ''aave''))
            (snd (StatusUpdater.setStatus h LOADED opts s1)) = LOADING
      \<and> get (getStatus store ''defi'' (Some ''aave''))
            (snd (StatusUpdater.resetStatus h opts s1)) = LOADING
      \<and> get (getStatus store ''balances'' (Some ''eth''))
            (snd (StatusUpdater.setStatus h LOADED opts s1)) = LOADED"
  using writers_frame
    [where sec' = "''defi''" and sub' = "Some ''aave''" and d = "''balances''"
       and arg = "Some \<lparr>Opts.section = None, Opts.subsection = Some ''eth''\<rparr>"
       and busy = "\<lambda>v. v = LOADING" and status = LOADED
       and s = "[(''defi'', Some ''aave'') \<mapsto> LOADING]"]
  by (simp add: useStatusUpdater_def updateStatus_resolved useStatusStore_def
      storeSetStatus_def storeGetStatus_def get_def effectiveSection_def
      effectiveSubsection_def)

end
